theory Spec2Isabelle
  imports Complex_Main
begin

section \<open>Python values, dictionaries and exceptions\<close>

text \<open>
  The values that occur in the option dictionary handed to
  \<^verbatim>\<open>run_yt_dlp_operation\<close>. The dictionary comes from
  \<^verbatim>\<open>model_dump(exclude_none=True)\<close>, so no key is bound to Python's
  \<^verbatim>\<open>None\<close>; the result of \<^verbatim>\<open>dict.get\<close> is a
  \<open>pyval option\<close>, where \<open>None\<close> is Python's \<^verbatim>\<open>None\<close>.
\<close>

datatype pyval = VBool bool | VInt int | VStr string

type_synonym pydict = "string \<rightharpoonup> pyval"

text \<open>Python truthiness of the result of \<^verbatim>\<open>d.get(k)\<close>.\<close>

fun truthy :: "pyval option \<Rightarrow> bool" where
  "truthy None = False"
| "truthy (Some (VBool b)) = b"
| "truthy (Some (VInt i)) = (i \<noteq> 0)"
| "truthy (Some (VStr s)) = (s \<noteq> [])"

text \<open>
  The exceptions the gateway tells apart: an instance of
  \<^verbatim>\<open>yt_dlp.utils.DownloadError\<close>, an instance of
  \<^verbatim>\<open>yt_dlp.utils.ExtractorError\<close>, and any other
  \<^verbatim>\<open>Exception\<close>. The string is \<^verbatim>\<open>str(e)\<close>.
\<close>

datatype exn = DownloadError string | ExtractorError string | OtherError string

fun exn_str :: "exn \<Rightarrow> string" where
  "exn_str (DownloadError m) = m"
| "exn_str (ExtractorError m) = m"
| "exn_str (OtherError m) = m"

datatype http_exception = HTTPException (status_code: nat) (detail: string)

subsection \<open>Decimal rendering of integers\<close>

definition digit_char :: "nat \<Rightarrow> char" where
  "digit_char d = char_of (48 + d)"

fun str_nat :: "nat \<Rightarrow> string" where
  "str_nat n = (if n < 10 then [digit_char n]
                else str_nat (n div 10) @ [digit_char (n mod 10)])"

declare str_nat.simps [simp del]

definition str_int :: "int \<Rightarrow> string" where
  "str_int i = (if i < 0 then CHR ''-'' # str_nat (nat (- i)) else str_nat (nat i))"

text \<open>\<^verbatim>\<open>str(v)\<close>, as an f-string renders a value.\<close>

fun py_str :: "pyval \<Rightarrow> string" where
  "py_str (VBool b) = (if b then ''True'' else ''False'')"
| "py_str (VInt i) = str_int i"
| "py_str (VStr s) = s"

text \<open>The name of a value's type, as it appears in a \<^verbatim>\<open>TypeError\<close>.\<close>

fun type_name :: "pyval \<Rightarrow> string" where
  "type_name (VBool b) = ''bool''"
| "type_name (VInt i) = ''int''"
| "type_name (VStr s) = ''str''"

section \<open>The world of one gateway call\<close>

type_synonym path = string

type_synonym files = "path \<rightharpoonup> string"

datatype log_level = INFO | WARNING | ERROR

record log_record =
  levelname :: log_level
  message :: string
  exc_info :: bool

definition log_info :: "string \<Rightarrow> log_record" where
  "log_info m = \<lparr>levelname = INFO, message = m, exc_info = False\<rparr>"

definition log_warning :: "string \<Rightarrow> log_record" where
  "log_warning m = \<lparr>levelname = WARNING, message = m, exc_info = False\<rparr>"

definition log_error :: "string \<Rightarrow> bool \<Rightarrow> log_record" where
  "log_error m x = \<lparr>levelname = ERROR, message = m, exc_info = x\<rparr>"

text \<open>
  The metadata object \<^verbatim>\<open>extract_info\<close> returns: a dictionary, or
  \<^verbatim>\<open>None\<close>.
\<close>

type_synonym info = "pydict option"

text \<open>
  Every entry into the external library is recorded, with the files that exist at that
  moment: the construction \<^verbatim>\<open>yt_dlp.YoutubeDL(final_ydl_opts)\<close>, which
  receives the option mapping, and the calls of \<^verbatim>\<open>extract_info\<close> and
  \<^verbatim>\<open>prepare_filename\<close>.
\<close>

datatype lib_event =
    Construct pydict files
  | ExtractInfo string bool files
  | PrepareFilename info

record world =
  files :: files
  log :: "log_record list"
  lib_calls :: "lib_event list"

definition logger :: "log_record \<Rightarrow> world \<Rightarrow> world" where
  "logger r w = w\<lparr>log := log w @ [r]\<rparr>"

definition record_call :: "lib_event \<Rightarrow> world \<Rightarrow> world" where
  "record_call c w = w\<lparr>lib_calls := lib_calls w @ [c]\<rparr>"

text \<open>
  What the gateway does not decide itself: the process id, which operations of the
  operating system fail (\<^verbatim>\<open>open(p, 'w')\<close>, writing and closing the file,
  \<^verbatim>\<open>os.remove(p)\<close>; each happens at most once in a call), which file
  descriptors are open (\<^verbatim>\<open>os.path.exists\<close> of an integer), how a
  dictionary prints, and the external extraction library: the constructor of
  \<^verbatim>\<open>YoutubeDL\<close>, \<^verbatim>\<open>extract_info\<close> (which may create
  and delete files), \<^verbatim>\<open>prepare_filename\<close>, and what leaving the
  \<^verbatim>\<open>with\<close> block does: it may change the files, and it may raise.
\<close>

record env =
  getpid :: nat
  open_fault :: "path \<Rightarrow> exn option"
  write_fault :: "path \<Rightarrow> exn option"
  remove_fault :: "path \<Rightarrow> exn option"
  fd_open :: "int \<Rightarrow> bool"
  str_dict :: "pydict \<Rightarrow> string"
  YoutubeDL :: "pydict \<Rightarrow> exn option"
  extract_info :: "pydict \<Rightarrow> string \<Rightarrow> bool \<Rightarrow> files \<Rightarrow> (exn + info) \<times> files"
  prepare_filename :: "pydict \<Rightarrow> info \<Rightarrow> exn + string"
  ydl_exit :: "pydict \<Rightarrow> files \<Rightarrow> exn option \<times> files"

subsection \<open>Paths and files\<close>

definition DOWNLOADS_DIR :: path where
  "DOWNLOADS_DIR = ''downloads''"

text \<open>\<^verbatim>\<open>os.path.join\<close> of two components (POSIX).\<close>

definition path_join :: "path \<Rightarrow> path \<Rightarrow> path" where
  "path_join a b =
     (if b \<noteq> [] \<and> hd b = CHR ''/'' then b
      else if a = [] \<or> last a = CHR ''/'' then a @ b
      else a @ ''/'' @ b)"

text \<open>
  \<^verbatim>\<open>with open(p, 'w') as f: f.write(v)\<close>. Opening creates or truncates
  the file; writing anything but a string raises \<^verbatim>\<open>TypeError\<close>.
\<close>

definition write_file :: "env \<Rightarrow> path \<Rightarrow> pyval \<Rightarrow> files \<Rightarrow> (exn + unit) \<times> files" where
  "write_file e p v fs =
     (case open_fault e p of
        Some x \<Rightarrow> (Inl x, fs)
      | None \<Rightarrow>
          (case v of
             VStr s \<Rightarrow>
               (case write_fault e p of
                  Some x \<Rightarrow> (Inl x, fs(p \<mapsto> []))
                | None \<Rightarrow> (Inr (), fs(p \<mapsto> s)))
           | _ \<Rightarrow> (Inl (OtherError (''write() argument must be str, not '' @ type_name v)),
                   fs(p \<mapsto> []))))"

text \<open>\<^verbatim>\<open>os.path.exists(v)\<close>: an integer is taken as a file descriptor.\<close>

fun path_exists :: "env \<Rightarrow> pyval \<Rightarrow> files \<Rightarrow> bool" where
  "path_exists e (VStr p) fs = (fs p \<noteq> None)"
| "path_exists e (VInt i) fs = fd_open e i"
| "path_exists e (VBool b) fs = fd_open e (if b then 1 else 0)"

text \<open>\<^verbatim>\<open>os.remove(v)\<close>: only a path can be removed.\<close>

fun os_remove :: "env \<Rightarrow> pyval \<Rightarrow> files \<Rightarrow> exn + files" where
  "os_remove e (VStr p) fs =
     (case remove_fault e p of Some x \<Rightarrow> Inl x | None \<Rightarrow> Inr (fs(p := None)))"
| "os_remove e v fs =
     Inl (OtherError (''remove: path should be string, bytes or os.PathLike, not ''
                      @ type_name v))"

section \<open>The gateway: \<^verbatim>\<open>run_yt_dlp_operation\<close>\<close>

definition cookie_file_path :: "nat \<Rightarrow> path" where
  "cookie_file_path pid = path_join DOWNLOADS_DIR (''cookies_'' @ str_nat pid @ ''.txt'')"

text \<open>
  Lines 66 to 79: when \<^verbatim>\<open>final_ydl_opts.get('cookies')\<close> is truthy, the
  key is popped, the value written to the cookie file and the key
  \<^verbatim>\<open>cookiefile\<close> set; any exception there becomes the HTTP error 500
  that leaves the function at once.
\<close>

definition stage_cookies :: "env \<Rightarrow> pydict \<Rightarrow> world \<Rightarrow> (http_exception + pydict) \<times> world" where
  "stage_cookies e final_ydl_opts w =
     (case final_ydl_opts ''cookies'' of
        None \<Rightarrow> (Inr final_ydl_opts, w)
      | Some cookies_str \<Rightarrow>
          if truthy (Some cookies_str) then
            (case write_file e (cookie_file_path (getpid e)) cookies_str (files w) of
               (Inl x, fs) \<Rightarrow>
                 (Inl (HTTPException 500 ''Failed to process cookies.''),
                  logger (log_error (''Failed to write cookie file: '' @ exn_str x) False)
                    (w\<lparr>files := fs\<rparr>))
             | (Inr u, fs) \<Rightarrow>
                 (Inr ((final_ydl_opts(''cookies'' := None))
                         (''cookiefile'' \<mapsto> VStr (cookie_file_path (getpid e)))),
                  logger (log_info (''Using cookie file: '' @ cookie_file_path (getpid e)))
                    (w\<lparr>files := fs\<rparr>)))
          else (Inr final_ydl_opts, w))"

text \<open>Lines 82 and 83.\<close>

definition strip_verbose :: "pydict \<Rightarrow> pydict" where
  "strip_verbose final_ydl_opts =
     (if \<not> truthy (final_ydl_opts ''verbose'') then final_ydl_opts(''verbose'' := None)
      else final_ydl_opts)"

text \<open>The message of the \<^verbatim>\<open>AttributeError\<close> of \<^verbatim>\<open>None.get\<close>.\<close>

definition NoneType_has_no_get :: string where
  "NoneType_has_no_get =
     CHR 0x27 # ''NoneType'' @ CHR 0x27 # '' object has no attribute '' @ CHR 0x27 # ''get''
     @ [CHR 0x27]"

text \<open>
  The two dictionaries the function returns: message, title, filepath and extractor
  after a download; message and info otherwise.
\<close>

datatype result =
    Downloaded string "pyval option" string "pyval option"
  | Metadata string info

text \<open>
  The body of the \<^verbatim>\<open>with\<close> block, lines 90 to 100. On
  \<^verbatim>\<open>None\<close>, \<^verbatim>\<open>info.get\<close> raises
  \<^verbatim>\<open>AttributeError\<close>.
\<close>

definition with_body :: "env \<Rightarrow> string \<Rightarrow> pydict \<Rightarrow> bool \<Rightarrow> world \<Rightarrow> (exn + result) \<times> world" where
  "with_body e url final_ydl_opts download w =
     (if download then
        (let w1 = logger (log_info (''Attempting to download: '' @ url @ '' with options: ''
                                     @ str_dict e final_ydl_opts)) w;
             w2 = record_call (ExtractInfo url True (files w1)) w1;
             (r, fs) = extract_info e final_ydl_opts url True (files w2);
             w3 = w2\<lparr>files := fs\<rparr>
         in case r of
              Inl x \<Rightarrow> (Inl x, w3)
            | Inr info \<Rightarrow>
                (case prepare_filename e final_ydl_opts info of
                   Inl x \<Rightarrow> (Inl x, record_call (PrepareFilename info) w3)
                 | Inr filepath \<Rightarrow>
                     (let w4 = logger (log_info (''Download complete for '' @ url @ ''. File: ''
                                                  @ filepath))
                                 (record_call (PrepareFilename info) w3)
                      in case info of
                           None \<Rightarrow>
                             (Inl (OtherError NoneType_has_no_get), w4)
                         | Some d \<Rightarrow>
                             (Inr (Downloaded ''Video downloaded successfully!'' (d ''title'')
                                     filepath (d ''extractor'')), w4))))
      else
        (let w1 = logger (log_info (''Attempting to extract info for: '' @ url
                                     @ '' with options: '' @ str_dict e final_ydl_opts)) w;
             w2 = record_call (ExtractInfo url False (files w1)) w1;
             (r, fs) = extract_info e final_ydl_opts url False (files w2);
             w3 = w2\<lparr>files := fs\<rparr>
         in case r of
              Inl x \<Rightarrow> (Inl x, w3)
            | Inr info \<Rightarrow>
                (Inr (Metadata ''Metadata extracted successfully!'' info),
                 logger (log_info (''Info extraction complete for '' @ url @ ''.'')) w3)))"

text \<open>
  Line 89: the option mapping is passed to the constructor; when the block is left, by
  a return or by an exception, the library's exit handler runs. An exception raised by
  the exit handler takes the place of the result or of the exception of the body.
\<close>

definition ydl_with :: "env \<Rightarrow> string \<Rightarrow> pydict \<Rightarrow> bool \<Rightarrow> world \<Rightarrow> (exn + result) \<times> world" where
  "ydl_with e url final_ydl_opts download w =
     (let w1 = record_call (Construct final_ydl_opts (files w)) w
      in case YoutubeDL e final_ydl_opts of
           Some x \<Rightarrow> (Inl x, w1)
         | None \<Rightarrow>
             (let (r, w2) = with_body e url final_ydl_opts download w1
              in case ydl_exit e final_ydl_opts (files w2) of
                   (Some x, fs) \<Rightarrow> (Inl x, w2\<lparr>files := fs\<rparr>)
                 | (None, fs) \<Rightarrow> (r, w2\<lparr>files := fs\<rparr>)))"

text \<open>The three \<^verbatim>\<open>except\<close> clauses, lines 101 to 109, in their order.\<close>

fun handler :: "string \<Rightarrow> exn \<Rightarrow> http_exception \<times> log_record" where
  "handler url (DownloadError m) =
     (HTTPException 400 (''Download error: '' @ m),
      log_error (''yt-dlp DownloadError for '' @ url @ '': '' @ m) False)"
| "handler url (ExtractorError m) =
     (HTTPException 400
        (''Extractor error (e.g., unsupported URL, video unavailable): '' @ m),
      log_error (''yt-dlp ExtractorError for '' @ url @ '': '' @ m) False)"
| "handler url (OtherError m) =
     (HTTPException 500 (''An unexpected server error occurred: '' @ m),
      log_error (''An unexpected error occurred for '' @ url @ '': '' @ m) True)"

text \<open>The \<^verbatim>\<open>finally\<close> clause, lines 110 to 117.\<close>

definition cleanup :: "env \<Rightarrow> pydict \<Rightarrow> world \<Rightarrow> world" where
  "cleanup e final_ydl_opts w =
     (case final_ydl_opts ''cookiefile'' of
        None \<Rightarrow> w
      | Some cf \<Rightarrow>
          if path_exists e cf (files w) then
            (case os_remove e cf (files w) of
               Inr fs \<Rightarrow> logger (log_info (''Cleaned up cookie file: '' @ py_str cf))
                          (w\<lparr>files := fs\<rparr>)
             | Inl x \<Rightarrow> logger (log_warning (''Failed to remove cookie file '' @ py_str cf
                                              @ '': '' @ exn_str x)) w)
          else w)"

definition run_yt_dlp_operation ::
  "env \<Rightarrow> string \<Rightarrow> pydict \<Rightarrow> bool \<Rightarrow> world \<Rightarrow> (http_exception + result) \<times> world" where
  "run_yt_dlp_operation e url ydl_options download w =
     (case stage_cookies e ydl_options w of
        (Inl h, w1) \<Rightarrow> (Inl h, w1)
      | (Inr opts1, w1) \<Rightarrow>
          (let final_ydl_opts = strip_verbose opts1;
               (r, w2) = ydl_with e url final_ydl_opts download w1
           in case r of
                Inr res \<Rightarrow> (Inr res, cleanup e final_ydl_opts w2)
              | Inl x \<Rightarrow>
                  (Inl (fst (handler url x)),
                   cleanup e final_ydl_opts (logger (snd (handler url x)) w2))))"

section \<open>The request models\<close>

text \<open>
  A request body, as parsed JSON. An object is the list of its members;
  \<open>map_of\<close> looks a key up.
\<close>

datatype json =
    JNull
  | JBool bool
  | JInt int
  | JFloat real
  | JStr string
  | JArray "json list"
  | JObject "(string \<times> json) list"

text \<open>
  The validators of pydantic for the three scalar types of the fields, which are not
  code of this repository: each turns a JSON value into a value of the type, or fails.
\<close>

record validators =
  v_str :: "json \<Rightarrow> string option"
  v_int :: "json \<Rightarrow> int option"
  v_bool :: "json \<Rightarrow> bool option"

text \<open>The class \<^verbatim>\<open>YtDlpOptions\<close>, lines 27 to 46.\<close>

record YtDlpOptions =
  format :: string
  outtmpl :: string
  noplaylist :: bool
  nocheckcertificate :: bool
  retries :: int
  extractor_retries :: int
  verbose :: bool
  cookies :: "string option"

text \<open>The defaults of the \<^verbatim>\<open>Field\<close> declarations.\<close>

definition default_YtDlpOptions :: YtDlpOptions where
  "default_YtDlpOptions =
     \<lparr>format = ''bestvideo[ext=mp4]+bestaudio[ext=m4a]/best[ext=mp4]/best'',
      outtmpl = path_join DOWNLOADS_DIR ''%(title)s.%(ext)s'',
      noplaylist = True,
      nocheckcertificate = True,
      retries = 5,
      extractor_retries = 5,
      verbose = False,
      cookies = None\<rparr>"

text \<open>
  A field with a default: a missing key takes the default, a present key is validated.
  The result is the list of the fields in error (empty or one name) and the value.
\<close>

definition get_field ::
  "(json \<Rightarrow> 'a option) \<Rightarrow> 'a \<Rightarrow> string \<Rightarrow> (string \<times> json) list \<Rightarrow> string list \<times> 'a" where
  "get_field v dflt k obj =
     (case map_of obj k of
        None \<Rightarrow> ([], dflt)
      | Some j \<Rightarrow> (case v j of None \<Rightarrow> ([k], dflt) | Some a \<Rightarrow> ([], a)))"

text \<open>The type \<^verbatim>\<open>str | None\<close>: \<^verbatim>\<open>null\<close> is accepted.\<close>

definition or_none :: "(json \<Rightarrow> 'a option) \<Rightarrow> json \<Rightarrow> 'a option option" where
  "or_none v j = (if j = JNull then Some None else map_option Some (v j))"

definition YtDlpOptions_errors :: "validators \<Rightarrow> (string \<times> json) list \<Rightarrow> string list" where
  "YtDlpOptions_errors V obj =
     fst (get_field (v_str V) (format default_YtDlpOptions) ''format'' obj)
     @ fst (get_field (v_str V) (outtmpl default_YtDlpOptions) ''outtmpl'' obj)
     @ fst (get_field (v_bool V) (noplaylist default_YtDlpOptions) ''noplaylist'' obj)
     @ fst (get_field (v_bool V) (nocheckcertificate default_YtDlpOptions)
              ''nocheckcertificate'' obj)
     @ fst (get_field (v_int V) (retries default_YtDlpOptions) ''retries'' obj)
     @ fst (get_field (v_int V) (extractor_retries default_YtDlpOptions)
              ''extractor_retries'' obj)
     @ fst (get_field (v_bool V) (verbose default_YtDlpOptions) ''verbose'' obj)
     @ fst (get_field (or_none (v_str V)) (cookies default_YtDlpOptions) ''cookies'' obj)"

definition YtDlpOptions_fields :: "validators \<Rightarrow> (string \<times> json) list \<Rightarrow> YtDlpOptions" where
  "YtDlpOptions_fields V obj =
     \<lparr>format = snd (get_field (v_str V) (format default_YtDlpOptions) ''format'' obj),
      outtmpl = snd (get_field (v_str V) (outtmpl default_YtDlpOptions) ''outtmpl'' obj),
      noplaylist =
        snd (get_field (v_bool V) (noplaylist default_YtDlpOptions) ''noplaylist'' obj),
      nocheckcertificate =
        snd (get_field (v_bool V) (nocheckcertificate default_YtDlpOptions)
               ''nocheckcertificate'' obj),
      retries = snd (get_field (v_int V) (retries default_YtDlpOptions) ''retries'' obj),
      extractor_retries =
        snd (get_field (v_int V) (extractor_retries default_YtDlpOptions)
               ''extractor_retries'' obj),
      verbose = snd (get_field (v_bool V) (verbose default_YtDlpOptions) ''verbose'' obj),
      cookies =
        snd (get_field (or_none (v_str V)) (cookies default_YtDlpOptions) ''cookies'' obj)\<rparr>"

text \<open>
  Validation of a \<^verbatim>\<open>YtDlpOptions\<close>: the value must be an object, and
  every field that is present must pass the validator of its type. There is no other
  constraint on a field. The error carries the names of the fields in error.
\<close>

datatype validation_error = ValidationError "string list"

definition validate_YtDlpOptions :: "validators \<Rightarrow> json \<Rightarrow> string list + YtDlpOptions" where
  "validate_YtDlpOptions V j =
     (case j of
        JObject obj \<Rightarrow>
          if YtDlpOptions_errors V obj = [] then Inr (YtDlpOptions_fields V obj)
          else Inl (YtDlpOptions_errors V obj)
      | _ \<Rightarrow> Inl [''options''])"

text \<open>The class \<^verbatim>\<open>VideoRequest\<close>, lines 50 to 55.\<close>

record VideoRequest =
  url :: string
  options :: YtDlpOptions

text \<open>The required field \<^verbatim>\<open>url\<close>.\<close>

definition url_field :: "validators \<Rightarrow> (string \<times> json) list \<Rightarrow> string list + string" where
  "url_field V obj =
     (case map_of obj ''url'' of
        None \<Rightarrow> Inl [''url'']
      | Some j \<Rightarrow> (case v_str V j of None \<Rightarrow> Inl [''url''] | Some s \<Rightarrow> Inr s))"

text \<open>The field \<^verbatim>\<open>options\<close>, whose default is \<^verbatim>\<open>YtDlpOptions()\<close>.\<close>

definition options_field ::
  "validators \<Rightarrow> (string \<times> json) list \<Rightarrow> string list + YtDlpOptions" where
  "options_field V obj =
     (case map_of obj ''options'' of
        None \<Rightarrow> Inr default_YtDlpOptions
      | Some j \<Rightarrow> validate_YtDlpOptions V j)"

definition validate_VideoRequest :: "validators \<Rightarrow> json \<Rightarrow> validation_error + VideoRequest" where
  "validate_VideoRequest V body =
     (case body of
        JObject obj \<Rightarrow>
          (case (url_field V obj, options_field V obj) of
             (Inr s, Inr opts) \<Rightarrow> Inr \<lparr>url = s, options = opts\<rparr>
           | (Inr s, Inl es) \<Rightarrow> Inl (ValidationError es)
           | (Inl es, Inr opts) \<Rightarrow> Inl (ValidationError es)
           | (Inl es, Inl es') \<Rightarrow> Inl (ValidationError (es @ es')))
      | _ \<Rightarrow> Inl (ValidationError [''body'']))"

text \<open>\<^verbatim>\<open>model_dump(exclude_none=True)\<close> of a \<^verbatim>\<open>YtDlpOptions\<close>.\<close>

definition model_dump :: "YtDlpOptions \<Rightarrow> pydict" where
  "model_dump m =
     (let dumped =
        [''format'' \<mapsto> VStr (format m),
         ''outtmpl'' \<mapsto> VStr (outtmpl m),
         ''noplaylist'' \<mapsto> VBool (noplaylist m),
         ''nocheckcertificate'' \<mapsto> VBool (nocheckcertificate m),
         ''retries'' \<mapsto> VInt (retries m),
         ''extractor_retries'' \<mapsto> VInt (extractor_retries m),
         ''verbose'' \<mapsto> VBool (verbose m)]
      in case cookies m of
           None \<Rightarrow> dumped
         | Some c \<Rightarrow> dumped(''cookies'' \<mapsto> VStr c))"

section \<open>The routes\<close>

definition get_video_info ::
  "env \<Rightarrow> VideoRequest \<Rightarrow> world \<Rightarrow> (http_exception + result) \<times> world" where
  "get_video_info e request w =
     run_yt_dlp_operation e (url request) (model_dump (options request)) False w"

definition download_video ::
  "env \<Rightarrow> VideoRequest \<Rightarrow> world \<Rightarrow> (http_exception + result) \<times> world" where
  "download_video e request w =
     run_yt_dlp_operation e (url request) (model_dump (options request)) True w"

text \<open>
  What the framework does with the body of a \<^verbatim>\<open>POST\<close>: it builds the
  \<^verbatim>\<open>VideoRequest\<close>, and calls the handler only when that succeeded.
\<close>

datatype response =
    Rejected validation_error
  | Raised http_exception
  | Returned result

definition post ::
  "(env \<Rightarrow> VideoRequest \<Rightarrow> world \<Rightarrow> (http_exception + result) \<times> world)
   \<Rightarrow> env \<Rightarrow> validators \<Rightarrow> json \<Rightarrow> world \<Rightarrow> response \<times> world" where
  "post handler_fn e V body w =
     (case validate_VideoRequest V body of
        Inl err \<Rightarrow> (Rejected err, w)
      | Inr request \<Rightarrow>
          (case handler_fn e request w of
             (Inl h, w') \<Rightarrow> (Raised h, w')
           | (Inr r, w') \<Rightarrow> (Returned r, w')))"

text \<open>
  Validators that accept exactly the JSON values of the field's own type.
\<close>

definition json_types :: validators where
  "json_types =
     \<lparr>v_str = (\<lambda>j. case j of JStr s \<Rightarrow> Some s | _ \<Rightarrow> None),
      v_int = (\<lambda>j. case j of JInt i \<Rightarrow> Some i | _ \<Rightarrow> None),
      v_bool = (\<lambda>j. case j of JBool b \<Rightarrow> Some b | _ \<Rightarrow> None)\<rparr>"

text \<open>A present field that its validator refuses.\<close>

definition refused :: "(json \<Rightarrow> 'a option) \<Rightarrow> string \<Rightarrow> (string \<times> json) list \<Rightarrow> bool" where
  "refused v k obj = (case map_of obj k of None \<Rightarrow> False | Some j \<Rightarrow> v j = None)"

section \<open>Observing a call\<close>

text \<open>The library calls made between the world \<open>w\<close> and the later world \<open>w'\<close>.\<close>

definition calls_of :: "world \<Rightarrow> world \<Rightarrow> lib_event list" where
  "calls_of w w' = drop (length (lib_calls w)) (lib_calls w')"

text \<open>The option mappings handed to the library in a sequence of calls.\<close>

fun passed_opts :: "lib_event list \<Rightarrow> pydict list" where
  "passed_opts [] = []"
| "passed_opts (Construct opts fs # cs) = opts # passed_opts cs"
| "passed_opts (c # cs) = passed_opts cs"

text \<open>The value of \<^verbatim>\<open>cookiefile\<close> after the staging step, if it went through.\<close>

definition staged_path :: "http_exception + pydict \<Rightarrow> pyval option" where
  "staged_path r = (case r of Inl h \<Rightarrow> None | Inr opts \<Rightarrow> opts ''cookiefile'')"

subsection \<open>A stubbed environment\<close>

text \<open>
  Process 7, an operating system on which nothing fails, and an extractor stubbed to
  return the metadata of one video.
\<close>

definition stub_env :: env where
  "stub_env =
     \<lparr>getpid = 7,
      open_fault = (\<lambda>p. None),
      write_fault = (\<lambda>p. None),
      remove_fault = (\<lambda>p. None),
      fd_open = (\<lambda>i. False),
      str_dict = (\<lambda>d. ''{...}''),
      YoutubeDL = (\<lambda>opts. None),
      extract_info = (\<lambda>opts url download fs.
         (Inr (Some [''title'' \<mapsto> VStr ''Demo'', ''ext'' \<mapsto> VStr ''mp4'',
                     ''extractor'' \<mapsto> VStr ''generic'']), fs)),
      prepare_filename = (\<lambda>opts info. Inr ''downloads/Demo.mp4''),
      ydl_exit = (\<lambda>opts fs. (None, fs))\<rparr>"

definition empty_world :: world where
  "empty_world = \<lparr>files = Map.empty, log = [], lib_calls = []\<rparr>"

definition raising :: "exn \<Rightarrow> pydict \<Rightarrow> string \<Rightarrow> bool \<Rightarrow> files \<Rightarrow> (exn + info) \<times> files" where
  "raising x opts u download fs = (Inl x, fs)"

section \<open>Facts about the steps of the gateway\<close>

lemma str_nat_7: "str_nat 7 = ''7''"
  by code_simp

lemma cookie_file_path_7: "cookie_file_path 7 = ''downloads/cookies_7.txt''"
  by (simp add: cookie_file_path_def path_join_def DOWNLOADS_DIR_def str_nat_7)

lemma write_file_remove_fault:
  "write_file (e\<lparr>remove_fault := rf\<rparr>) p v fs = write_file e p v fs"
  by (simp add: write_file_def split: option.split pyval.split)

lemma stage_cookies_remove_fault:
  "stage_cookies (e\<lparr>remove_fault := rf\<rparr>) opts w = stage_cookies e opts w"
  by (auto simp: stage_cookies_def write_file_remove_fault split: option.splits prod.splits sum.splits)

lemma with_body_remove_fault:
  "with_body (e\<lparr>remove_fault := rf\<rparr>) u opts d w = with_body e u opts d w"
  by (simp add: with_body_def Let_def split: prod.split sum.split option.split)

lemma ydl_with_remove_fault:
  "ydl_with (e\<lparr>remove_fault := rf\<rparr>) u opts d w = ydl_with e u opts d w"
  by (auto simp: ydl_with_def Let_def with_body_remove_fault split: option.splits prod.splits)

lemma fst_run:
  "fst (run_yt_dlp_operation e u opts d w) =
     (case stage_cookies e opts w of
        (Inl h, w1) \<Rightarrow> Inl h
      | (Inr o1, w1) \<Rightarrow>
          (case fst (ydl_with e u (strip_verbose o1) d w1) of
             Inr res \<Rightarrow> Inr res
           | Inl x \<Rightarrow> Inl (fst (handler u x))))"
  by (auto simp: run_yt_dlp_operation_def Let_def split: prod.splits sum.splits)

lemma snd_run:
  "snd (run_yt_dlp_operation e u opts d w) =
     (case stage_cookies e opts w of
        (Inl h, w1) \<Rightarrow> w1
      | (Inr o1, w1) \<Rightarrow>
          (case ydl_with e u (strip_verbose o1) d w1 of
             (Inr res, w2) \<Rightarrow> cleanup e (strip_verbose o1) w2
           | (Inl x, w2) \<Rightarrow> cleanup e (strip_verbose o1) (logger (snd (handler u x)) w2)))"
  by (auto simp: run_yt_dlp_operation_def Let_def split: prod.splits sum.splits)

lemmas gateway_defs = run_yt_dlp_operation_def stage_cookies_def write_file_def strip_verbose_def
   ydl_with_def with_body_def record_call_def logger_def cleanup_def
   log_info_def log_error_def log_warning_def raising_def calls_of_def

subsection \<open>Staging\<close>

lemma stage_cookies_lib_calls:
  "lib_calls (snd (stage_cookies e opts w)) = lib_calls w"
  by (simp add: stage_cookies_def logger_def split: option.split prod.split sum.split)

lemma stage_cookies_written:
  assumes "opts ''cookies'' = Some (VStr s)" and "s \<noteq> []"
    and "open_fault e (cookie_file_path (getpid e)) = None"
    and "write_fault e (cookie_file_path (getpid e)) = None"
  shows "stage_cookies e opts w =
           (Inr ((opts(''cookies'' := None))(''cookiefile'' \<mapsto> VStr (cookie_file_path (getpid e)))),
            logger (log_info (''Using cookie file: '' @ cookie_file_path (getpid e)))
              (w\<lparr>files := (files w)(cookie_file_path (getpid e) \<mapsto> s)\<rparr>))"
  using assms by (simp add: stage_cookies_def write_file_def)

lemma stage_cookies_substitutes:
  assumes "stage_cookies e opts w = (Inr o1, w1)" and "truthy (opts ''cookies'')"
  shows "o1 = (opts(''cookies'' := None))(''cookiefile'' \<mapsto> VStr (cookie_file_path (getpid e)))"
  using assms by (auto simp: stage_cookies_def split: option.splits prod.splits sum.splits)

lemma stage_cookies_verbose:
  assumes "stage_cookies e opts w = (Inr o1, w1)"
  shows "o1 ''verbose'' = opts ''verbose''"
  using assms by (auto simp: stage_cookies_def split: option.splits prod.splits sum.splits if_splits)

lemma stage_cookies_fails:
  assumes "opts ''cookies'' = Some v" and "truthy (Some v)"
    and "fst (write_file e (cookie_file_path (getpid e)) v (files w)) = Inl x"
  shows "fst (stage_cookies e opts w) = Inl (HTTPException 500 ''Failed to process cookies.'')"
  using assms by (auto simp: stage_cookies_def split: prod.splits sum.splits)

subsection \<open>The library calls\<close>

lemma with_body_lib_calls:
  "\<exists>cs. lib_calls (snd (with_body e u opts d w)) = lib_calls w @ cs \<and> passed_opts cs = []"
  by (simp add: with_body_def Let_def record_call_def logger_def
      split: prod.split sum.split option.split)

lemma ydl_with_lib_calls:
  "\<exists>cs. lib_calls (snd (ydl_with e u opts d w)) = lib_calls w @ Construct opts (files w) # cs
        \<and> passed_opts cs = []"
proof (cases "YoutubeDL e opts")
  case None
  obtain cs where cs: "lib_calls (snd (with_body e u opts d (record_call (Construct opts (files w)) w)))
      = lib_calls (record_call (Construct opts (files w)) w) @ cs" "passed_opts cs = []"
    using with_body_lib_calls by blast
  then show ?thesis using None
    by (auto simp: ydl_with_def Let_def record_call_def split: prod.splits option.splits)
next
  case (Some x)
  then show ?thesis by (simp add: ydl_with_def Let_def record_call_def)
qed

lemma calls_of_ydl_with:
  "take 1 (calls_of w (snd (ydl_with e u opts d w))) = [Construct opts (files w)]
   \<and> passed_opts (calls_of w (snd (ydl_with e u opts d w))) = [opts]"
proof -
  obtain cs where "lib_calls (snd (ydl_with e u opts d w)) = lib_calls w @ Construct opts (files w) # cs"
    and "passed_opts cs = []"
    using ydl_with_lib_calls by blast
  then show ?thesis by (simp add: calls_of_def)
qed

lemma cleanup_lib_calls: "lib_calls (cleanup e opts w) = lib_calls w"
  by (simp add: cleanup_def logger_def split: option.split sum.split)

lemma calls_of_run:
  "calls_of w (snd (run_yt_dlp_operation e u opts d w)) =
     (case stage_cookies e opts w of
        (Inl h, w1) \<Rightarrow> []
      | (Inr o1, w1) \<Rightarrow> calls_of w1 (snd (ydl_with e u (strip_verbose o1) d w1)))"
proof (cases "stage_cookies e opts w")
  case (Pair r w1)
  have "lib_calls w1 = lib_calls w"
    using stage_cookies_lib_calls [of e opts w] Pair by simp
  then show ?thesis using Pair
    by (cases r) (auto simp: snd_run calls_of_def cleanup_lib_calls logger_def split: prod.splits sum.splits)
qed

lemma first_call_run:
  assumes "stage_cookies e opts w = (Inr o1, w1)"
  shows "take 1 (calls_of w (snd (run_yt_dlp_operation e u opts d w)))
           = [Construct (strip_verbose o1) (files w1)]"
proof -
  have "calls_of w (snd (run_yt_dlp_operation e u opts d w))
      = calls_of w1 (snd (ydl_with e u (strip_verbose o1) d w1))"
    using assms by (simp add: calls_of_run)
  then show ?thesis
    using calls_of_ydl_with [of w1 e u "strip_verbose o1" d] by simp
qed

lemma passed_opts_run:
  "passed_opts (calls_of w (snd (run_yt_dlp_operation e u opts d w))) =
     (case fst (stage_cookies e opts w) of Inl h \<Rightarrow> [] | Inr o1 \<Rightarrow> [strip_verbose o1])"
  by (simp add: calls_of_run calls_of_ydl_with split: prod.split sum.split)

lemma strip_verbose_other: "k \<noteq> ''verbose'' \<Longrightarrow> strip_verbose opts k = opts k"
  by (simp add: strip_verbose_def)

lemma strip_verbose_verbose:
  "strip_verbose opts ''verbose'' = (if truthy (opts ''verbose'') then opts ''verbose'' else None)"
  by (simp add: strip_verbose_def)

subsection \<open>Cleanup\<close>

lemma cleanup_removes:
  assumes "opts ''cookiefile'' = Some (VStr p)" and "remove_fault e p = None"
  shows "files (cleanup e opts w) p = None"
  using assms by (simp add: cleanup_def logger_def)

lemma cleanup_absent:
  assumes "opts ''cookiefile'' = Some (VStr p)" and "files w p = None"
  shows "cleanup e opts w = w"
  using assms by (simp add: cleanup_def)

lemma cleanup_log: "set (log w) \<subseteq> set (log (cleanup e opts w))"
  by (auto simp: cleanup_def logger_def split: option.splits sum.splits)

subsection \<open>The staged path\<close>

lemma digit_char_inj:
  assumes "a < 10" and "b < 10" and "digit_char a = digit_char b"
  shows "a = b"
proof -
  have "(48 + a) mod 256 = (48 + b) mod 256"
    using assms(3) by (simp add: digit_char_def char_of_eq_iff take_bit_eq_mod)
  with assms(1,2) show ?thesis by simp
qed

lemma str_nat_not_Nil: "str_nat n \<noteq> []"
  by (subst str_nat.simps) simp

lemma str_nat_inj: "str_nat m = str_nat n \<Longrightarrow> m = n"
proof (induction m arbitrary: n rule: str_nat.induct)
  case (1 m)
  show ?case
  proof (cases "m < 10")
    case small_m: True
    show ?thesis
    proof (cases "n < 10")
      case True
      with small_m "1.prems" show ?thesis
        by (simp add: str_nat.simps [of m] str_nat.simps [of n] digit_char_inj)
    next
      case False
      with small_m "1.prems" show ?thesis
        using str_nat_not_Nil [of "n div 10"]
        by (simp add: str_nat.simps [of m] str_nat.simps [of n])
    qed
  next
    case big_m: False
    show ?thesis
    proof (cases "n < 10")
      case True
      with big_m "1.prems" show ?thesis
        using str_nat_not_Nil [of "m div 10"]
        by (simp add: str_nat.simps [of m] str_nat.simps [of n])
    next
      case False
      with big_m "1.prems" have eq: "str_nat (m div 10) = str_nat (n div 10)"
        and dig: "digit_char (m mod 10) = digit_char (n mod 10)"
        by (simp_all add: str_nat.simps [of m] str_nat.simps [of n])
      from "1.IH" [OF big_m eq] have "m div 10 = n div 10" .
      moreover from dig have "m mod 10 = n mod 10"
        by (intro digit_char_inj) simp_all
      ultimately show ?thesis
        by (metis div_mult_mod_eq)
    qed
  qed
qed

lemma cookie_file_path_inj: "cookie_file_path p = cookie_file_path q \<longleftrightarrow> p = q"
  by (auto simp: cookie_file_path_def path_join_def DOWNLOADS_DIR_def dest: str_nat_inj)

lemma cookie_file_path_8: "cookie_file_path 8 = ''downloads/cookies_8.txt''"
proof -
  have "str_nat 8 = ''8''" by code_simp
  then show ?thesis
    by (simp add: cookie_file_path_def path_join_def DOWNLOADS_DIR_def)
qed

subsection \<open>Validation\<close>

lemma fst_get_field: "fst (get_field v dflt k obj) = [] \<longleftrightarrow> \<not> refused v k obj"
  by (simp add: get_field_def refused_def split: option.split)

lemma YtDlpOptions_errors_Nil:
  "YtDlpOptions_errors V obj = [] \<longleftrightarrow>
     \<not> (refused (v_str V) ''format'' obj \<or> refused (v_str V) ''outtmpl'' obj
        \<or> refused (v_bool V) ''noplaylist'' obj \<or> refused (v_bool V) ''nocheckcertificate'' obj
        \<or> refused (v_int V) ''retries'' obj \<or> refused (v_int V) ''extractor_retries'' obj
        \<or> refused (v_bool V) ''verbose'' obj \<or> refused (or_none (v_str V)) ''cookies'' obj)"
  by (simp add: YtDlpOptions_errors_def fst_get_field)

lemma isl_validate_YtDlpOptions:
  "isl (validate_YtDlpOptions V (JObject obj)) \<longleftrightarrow> YtDlpOptions_errors V obj \<noteq> []"
  by (simp add: validate_YtDlpOptions_def)

lemma isl_url_field:
  "isl (url_field V obj) \<longleftrightarrow> map_of obj ''url'' = None \<or> refused (v_str V) ''url'' obj"
  by (simp add: url_field_def refused_def split: option.split)

lemma isl_validate_VideoRequest:
  "isl (validate_VideoRequest V (JObject obj)) \<longleftrightarrow>
     isl (url_field V obj) \<or> isl (options_field V obj)"
  by (simp add: validate_VideoRequest_def split: sum.split)

lemmas validation_defs = validate_VideoRequest_def url_field_def options_field_def
  validate_YtDlpOptions_def YtDlpOptions_errors_def YtDlpOptions_fields_def get_field_def
  or_none_def json_types_def default_YtDlpOptions_def refused_def

subsection \<open>What the routes hand to the gateway\<close>

lemma model_dump_cookies:
  "model_dump m ''cookies'' = map_option VStr (cookies m)"
  by (simp add: model_dump_def Let_def split: option.split)

lemma model_dump_verbose: "model_dump m ''verbose'' = Some (VBool (verbose m))"
  by (simp add: model_dump_def Let_def split: option.split)

lemma model_dump_cookiefile: "model_dump m ''cookiefile'' = None"
  by (simp add: model_dump_def Let_def split: option.split)

subsection \<open>What the with block does\<close>

lemma with_body_files:
  "files (snd (with_body e u opts d w)) = snd (extract_info e opts u d (files w))"
  by (simp add: with_body_def Let_def record_call_def logger_def
      split: prod.split sum.split option.split)

lemma with_body_extract_info_raises:
  assumes "fst (extract_info e opts u d (files w)) = Inl x"
  shows "fst (with_body e u opts d w) = Inl x"
  using assms
  by (cases d) (auto simp: with_body_def Let_def record_call_def logger_def split: prod.splits)

lemma with_body_prepare_filename_raises:
  assumes "fst (extract_info e opts u True (files w)) = Inr i"
    and "prepare_filename e opts i = Inl x"
  shows "fst (with_body e u opts True w) = Inl x"
  using assms
  by (auto simp: with_body_def Let_def record_call_def logger_def split: prod.splits)

lemma with_body_info_None:
  assumes "fst (extract_info e opts u True (files w)) = Inr None"
    and "prepare_filename e opts None = Inr fp"
  shows "fst (with_body e u opts True w) = Inl (OtherError NoneType_has_no_get)"
  using assms
  by (auto simp: with_body_def Let_def record_call_def logger_def split: prod.splits)

lemma with_body_downloaded:
  assumes "fst (extract_info e opts u True (files w)) = Inr (Some i)"
    and "prepare_filename e opts (Some i) = Inr fp"
  shows "fst (with_body e u opts True w)
           = Inr (Downloaded ''Video downloaded successfully!'' (i ''title'') fp (i ''extractor''))"
  using assms
  by (auto simp: with_body_def Let_def record_call_def logger_def split: prod.splits)

lemma with_body_metadata:
  assumes "fst (extract_info e opts u False (files w)) = Inr i"
  shows "fst (with_body e u opts False w) = Inr (Metadata ''Metadata extracted successfully!'' i)"
  using assms
  by (auto simp: with_body_def Let_def record_call_def logger_def split: prod.splits)

lemma ydl_with_constructor_raises:
  assumes "YoutubeDL e opts = Some x"
  shows "ydl_with e u opts d w = (Inl x, record_call (Construct opts (files w)) w)"
  using assms by (simp add: ydl_with_def Let_def)

lemma ydl_with_exit_raises:
  assumes "YoutubeDL e opts = None"
    and "fst (ydl_exit e opts (snd (extract_info e opts u d (files w)))) = Some x"
  shows "fst (ydl_with e u opts d w) = Inl x"
proof -
  have "files (snd (with_body e u opts d (record_call (Construct opts (files w)) w)))
      = snd (extract_info e opts u d (files w))"
    by (simp add: with_body_files record_call_def)
  with assms show ?thesis
    by (auto simp: ydl_with_def Let_def split: prod.splits option.splits)
qed

lemma ydl_with_exit_returns:
  assumes "YoutubeDL e opts = None"
    and "fst (ydl_exit e opts (snd (extract_info e opts u d (files w)))) = None"
  shows "fst (ydl_with e u opts d w)
           = fst (with_body e u opts d (record_call (Construct opts (files w)) w))"
proof -
  have "files (snd (with_body e u opts d (record_call (Construct opts (files w)) w)))
      = snd (extract_info e opts u d (files w))"
    by (simp add: with_body_files record_call_def)
  with assms show ?thesis
    by (auto simp: ydl_with_def Let_def split: prod.splits option.splits)
qed

lemma files_ydl_with:
  "files (snd (ydl_with e u opts d w)) =
     (case YoutubeDL e opts of
        Some x \<Rightarrow> files w
      | None \<Rightarrow> snd (ydl_exit e opts (snd (extract_info e opts u d (files w)))))"
proof (cases "YoutubeDL e opts")
  case None
  have "files (snd (with_body e u opts d (record_call (Construct opts (files w)) w)))
      = snd (extract_info e opts u d (files w))"
    by (simp add: with_body_files record_call_def)
  with None show ?thesis
    by (auto simp: ydl_with_def Let_def split: prod.splits option.splits)
next
  case (Some x)
  then show ?thesis by (simp add: ydl_with_def Let_def record_call_def)
qed

lemma library_raises:
  assumes "YoutubeDL e opts = Some x
     \<or> YoutubeDL e opts = None
       \<and> (fst (ydl_exit e opts (snd (extract_info e opts u d (files w)))) = Some x
          \<or> fst (ydl_exit e opts (snd (extract_info e opts u d (files w)))) = None
            \<and> (fst (extract_info e opts u d (files w)) = Inl x
               \<or> d \<and> (\<exists>i. fst (extract_info e opts u d (files w)) = Inr i
                          \<and> prepare_filename e opts i = Inl x)))"
  shows "fst (ydl_with e u opts d w) = Inl x"
proof -
  let ?w1 = "record_call (Construct opts (files w)) w"
  have fs: "files ?w1 = files w" by (simp add: record_call_def)
  from assms consider
      (ctor) "YoutubeDL e opts = Some x"
    | (on_exit) "YoutubeDL e opts = None"
        "fst (ydl_exit e opts (snd (extract_info e opts u d (files w)))) = Some x"
    | (in_extract) "YoutubeDL e opts = None"
        "fst (ydl_exit e opts (snd (extract_info e opts u d (files w)))) = None"
        "fst (extract_info e opts u d (files w)) = Inl x"
    | (in_prepare) i where "YoutubeDL e opts = None"
        "fst (ydl_exit e opts (snd (extract_info e opts u d (files w)))) = None"
        "d" "fst (extract_info e opts u d (files w)) = Inr i" "prepare_filename e opts i = Inl x"
    by (elim disjE conjE exE)
  then show ?thesis
  proof cases
    case ctor
    then show ?thesis by (simp add: ydl_with_constructor_raises)
  next
    case on_exit
    then show ?thesis by (rule ydl_with_exit_raises)
  next
    case in_extract
    then show ?thesis
      using with_body_extract_info_raises [of e opts u d ?w1 x]
      by (simp add: ydl_with_exit_returns fs)
  next
    case in_prepare
    then show ?thesis
      using with_body_prepare_filename_raises [of e opts u ?w1 i x]
      by (simp add: ydl_with_exit_returns fs)
  qed
qed

subsection \<open>Cleanup, case by case\<close>

lemma cleanup_removal_fails:
  assumes "opts ''cookiefile'' = Some (VStr p)" and "remove_fault e p = Some x"
    and "files w p \<noteq> None"
  shows "cleanup e opts w
           = logger (log_warning (''Failed to remove cookie file '' @ p @ '': '' @ exn_str x)) w"
  using assms by (auto simp: cleanup_def)

lemma cleanup_removal_succeeds:
  assumes "opts ''cookiefile'' = Some (VStr p)" and "remove_fault e p = None"
    and "files w p \<noteq> None"
  shows "cleanup e opts w
           = logger (log_info (''Cleaned up cookie file: '' @ p)) (w\<lparr>files := (files w)(p := None)\<rparr>)"
  using assms by (auto simp: cleanup_def)

lemma run_before_cleanup:
  assumes "stage_cookies e opts w = (Inr o1, w1)"
  shows "\<exists>w2. snd (run_yt_dlp_operation e u opts d w) = cleanup e (strip_verbose o1) w2
            \<and> files w2 = files (snd (ydl_with e u (strip_verbose o1) d w1))"
  using assms by (auto simp: snd_run logger_def split: prod.splits sum.splits)

section \<open>The claims about the gateway\<close>
text \<open>
  Claim C1, as the code has it. When the options hold a non-empty credential string and
  the staged file is written, the external library is first entered with the file in
  place. Whatever the library then does (returns, raises a recognised error or raises
  anything else), the cleanup runs before the gateway call returns. When
  \<^verbatim>\<open>os.remove\<close> does not fail, the staged file is gone afterwards, and its
  removal is the last thing logged if the library had left the file in place. When
  \<^verbatim>\<open>os.remove\<close> fails, the file is left as the library left it and the
  failure is the last thing logged, as a warning. Running the cleanup again when the
  file is absent changes nothing.
\<close>

theorem staged_file_removed_unless_removal_fails:
  assumes "opts ''cookies'' = Some (VStr s)" and "s \<noteq> []"
    and "open_fault e (cookie_file_path (getpid e)) = None"
    and "write_fault e (cookie_file_path (getpid e)) = None"
  shows "let p = cookie_file_path (getpid e);
             final = strip_verbose ((opts(''cookies'' := None))(''cookiefile'' \<mapsto> VStr p));
             staged = (files w)(p \<mapsto> s);
             kept = (case YoutubeDL e final of
                       Some x \<Rightarrow> staged
                     | None \<Rightarrow> snd (ydl_exit e final (snd (extract_info e final u d staged))));
             w' = snd (run_yt_dlp_operation e u opts d w)
         in take 1 (calls_of w w') = [Construct final staged]
          \<and> (remove_fault e p = None \<longrightarrow>
                files w' p = None
              \<and> (kept p \<noteq> None \<longrightarrow>
                    last (log w') = log_info (''Cleaned up cookie file: '' @ p)))
          \<and> (\<forall>x. remove_fault e p = Some x \<longrightarrow>
                files w' p = kept p
              \<and> (kept p \<noteq> None \<longrightarrow>
                    last (log w')
                      = log_warning (''Failed to remove cookie file '' @ p @ '': '' @ exn_str x)))
          \<and> (files w' p = None \<longrightarrow> cleanup e final w' = w')"
proof -
  let ?p = "cookie_file_path (getpid e)"
  let ?final = "strip_verbose ((opts(''cookies'' := None))(''cookiefile'' \<mapsto> VStr ?p))"
  let ?staged = "(files w)(?p \<mapsto> s)"
  let ?kept = "case YoutubeDL e ?final of
                 Some x \<Rightarrow> ?staged
               | None \<Rightarrow> snd (ydl_exit e ?final (snd (extract_info e ?final u d ?staged)))"
  let ?w1 = "logger (log_info (''Using cookie file: '' @ ?p)) (w\<lparr>files := ?staged\<rparr>)"
  let ?w' = "snd (run_yt_dlp_operation e u opts d w)"
  have st: "stage_cookies e opts w
      = (Inr ((opts(''cookies'' := None))(''cookiefile'' \<mapsto> VStr ?p)), ?w1)"
    using assms by (rule stage_cookies_written)
  have cf: "?final ''cookiefile'' = Some (VStr ?p)"
    by (simp add: strip_verbose_other)
  have first: "take 1 (calls_of w ?w') = [Construct ?final ?staged]"
    using first_call_run [OF st, of u d] by (simp add: logger_def)
  obtain w2 where w': "?w' = cleanup e ?final w2"
    and "files w2 = files (snd (ydl_with e u ?final d ?w1))"
    using run_before_cleanup [OF st, of u d] by blast
  note this(2)
  moreover have "files ?w1 = ?staged"
    by (simp add: logger_def)
  ultimately have w2: "files w2 = ?kept"
    by (simp only: files_ydl_with)
  have ok: "files ?w' ?p = None
      \<and> (?kept ?p \<noteq> None \<longrightarrow> last (log ?w') = log_info (''Cleaned up cookie file: '' @ ?p))"
    if "remove_fault e ?p = None"
  proof (cases "?kept ?p")
    case None
    then show ?thesis
      using cleanup_absent [where opts = ?final and p = ?p and w = w2 and e = e] cf w' w2
      by simp
  next
    case (Some c)
    then show ?thesis
      using cleanup_removal_succeeds [where opts = ?final and p = ?p and w = w2 and e = e]
        cf that w' w2
      by (simp add: logger_def)
  qed
  have ko: "files ?w' ?p = ?kept ?p
      \<and> (?kept ?p \<noteq> None \<longrightarrow>
            last (log ?w') = log_warning (''Failed to remove cookie file '' @ ?p @ '': '' @ exn_str x))"
    if "remove_fault e ?p = Some x" for x
  proof (cases "?kept ?p")
    case None
    then show ?thesis
      using cleanup_absent [where opts = ?final and p = ?p and w = w2 and e = e] cf w' w2
      by simp
  next
    case (Some c)
    then show ?thesis
      using cleanup_removal_fails [where opts = ?final and p = ?p and w = w2 and e = e and x = x]
        cf that w' w2
      by (simp add: logger_def)
  qed
  have again: "cleanup e ?final ?w' = ?w'" if "files ?w' ?p = None"
    using cf that by (rule cleanup_absent)
  from first ok ko again show ?thesis
    unfolding Let_def by blast
qed

theorem staged_file_removed_witness:
  "files (snd (run_yt_dlp_operation stub_env ''https://example.com/video/1''
         [''cookies'' \<mapsto> VStr ''sessionid=abc123''] True empty_world))
       ''downloads/cookies_7.txt'' = None
   \<and> last (log (snd (run_yt_dlp_operation stub_env ''https://example.com/video/1''
         [''cookies'' \<mapsto> VStr ''sessionid=abc123''] True empty_world)))
       = log_info ''Cleaned up cookie file: downloads/cookies_7.txt''
   \<and> files (snd (run_yt_dlp_operation
         (stub_env\<lparr>extract_info := raising (OtherError ''boom''),
                   remove_fault := (\<lambda>p. Some (OtherError ''Permission denied''))\<rparr>)
         ''https://example.com/video/1'' [''cookies'' \<mapsto> VStr ''sessionid=abc123''] True empty_world))
       ''downloads/cookies_7.txt'' = Some ''sessionid=abc123''
   \<and> last (log (snd (run_yt_dlp_operation
         (stub_env\<lparr>extract_info := raising (OtherError ''boom''),
                   remove_fault := (\<lambda>p. Some (OtherError ''Permission denied''))\<rparr>)
         ''https://example.com/video/1'' [''cookies'' \<mapsto> VStr ''sessionid=abc123''] True empty_world)))
       = log_warning ''Failed to remove cookie file downloads/cookies_7.txt: Permission denied''"
proof -
  let ?e2 = "stub_env\<lparr>extract_info := raising (OtherError ''boom''),
                   remove_fault := (\<lambda>p. Some (OtherError ''Permission denied''))\<rparr>"
  have pid: "getpid stub_env = 7" "getpid ?e2 = 7"
    by (simp_all add: stub_env_def)
  have a: "[''cookies'' \<mapsto> VStr ''sessionid=abc123''] ''cookies'' = Some (VStr ''sessionid=abc123'')"
    and b: "''sessionid=abc123'' \<noteq> []"
    by simp_all
  have c1: "open_fault stub_env (cookie_file_path (getpid stub_env)) = None"
    and d1: "write_fault stub_env (cookie_file_path (getpid stub_env)) = None"
    and c2: "open_fault ?e2 (cookie_file_path (getpid ?e2)) = None"
    and d2: "write_fault ?e2 (cookie_file_path (getpid ?e2)) = None"
    by (simp_all add: stub_env_def)
  show ?thesis
    using a b c1 d1 c2 d2
      staged_file_removed_unless_removal_fails
        [where opts = "[''cookies'' \<mapsto> VStr ''sessionid=abc123'']" and s = "''sessionid=abc123''" and e = stub_env
          and w = empty_world and u = "''https://example.com/video/1''" and d = True]
      staged_file_removed_unless_removal_fails
        [where opts = "[''cookies'' \<mapsto> VStr ''sessionid=abc123'']" and s = "''sessionid=abc123''" and e = ?e2
          and w = empty_world and u = "''https://example.com/video/1''" and d = True]
    by (simp add: Let_def pid cookie_file_path_7 stub_env_def empty_world_def raising_def
        strip_verbose_def)
qed

text \<open>
  Claim C1 as stated fails: when \<^verbatim>\<open>os.remove\<close> raises, the
  \<^verbatim>\<open>except\<close> clause of the cleanup logs a warning and the staged file,
  with the credential string in it, is still there after the call has returned.
\<close>

theorem staged_file_survives_failed_removal:
  "cookie_file_path (getpid stub_env) = ''downloads/cookies_7.txt''
   \<and> files (snd (run_yt_dlp_operation
         (stub_env\<lparr>remove_fault := (\<lambda>p. Some (OtherError ''Permission denied''))\<rparr>)
         ''https://example.com/video/1'' [''cookies'' \<mapsto> VStr ''sessionid=abc123''] True empty_world))
       ''downloads/cookies_7.txt'' = Some ''sessionid=abc123''"
  by (simp add: gateway_defs Let_def stub_env_def empty_world_def cookie_file_path_7)

text \<open>
  Claim C3. The staging step went through, and \<open>x\<close> is the exception with which the
  library leaves the \<^verbatim>\<open>try\<close> block: raised by the constructor, or on
  leaving the \<^verbatim>\<open>with\<close> block, or else by \<^verbatim>\<open>extract_info\<close>
  or, in download mode, by \<^verbatim>\<open>prepare_filename\<close>. When \<open>x\<close> is a
  \<^verbatim>\<open>DownloadError\<close> or an \<^verbatim>\<open>ExtractorError\<close> with message
  \<open>m\<close>, the gateway raises an HTTP exception with status 400 whose detail ends with
  \<open>m\<close>.
\<close>

theorem extractor_errors_become_400:
  assumes staged: "stage_cookies e opts w = (Inr o1, w1)"
    and raised:
      "YoutubeDL e (strip_verbose o1) = Some x
       \<or> YoutubeDL e (strip_verbose o1) = None
         \<and> (fst (ydl_exit e (strip_verbose o1)
                   (snd (extract_info e (strip_verbose o1) u d (files w1)))) = Some x
            \<or> fst (ydl_exit e (strip_verbose o1)
                     (snd (extract_info e (strip_verbose o1) u d (files w1)))) = None
              \<and> (fst (extract_info e (strip_verbose o1) u d (files w1)) = Inl x
                 \<or> d \<and> (\<exists>i. fst (extract_info e (strip_verbose o1) u d (files w1)) = Inr i
                            \<and> prepare_filename e (strip_verbose o1) i = Inl x)))"
  shows "(x = DownloadError m \<longrightarrow>
            fst (run_yt_dlp_operation e u opts d w)
              = Inl (HTTPException 400 (''Download error: '' @ m)))
       \<and> (x = ExtractorError m \<longrightarrow>
            fst (run_yt_dlp_operation e u opts d w)
              = Inl (HTTPException 400
                  (''Extractor error (e.g., unsupported URL, video unavailable): '' @ m)))"
proof -
  have "fst (ydl_with e u (strip_verbose o1) d w1) = Inl x"
    using raised by (rule library_raises)
  with staged show ?thesis by (simp add: fst_run)
qed

theorem extractor_errors_become_400_witness:
  "fst (run_yt_dlp_operation
        (stub_env\<lparr>extract_info := raising (DownloadError ''network unreachable'')\<rparr>)
        ''https://example.com/video/1'' [''verbose'' \<mapsto> VBool False] False empty_world)
      = Inl (HTTPException 400 ''Download error: network unreachable'')
   \<and> fst (run_yt_dlp_operation
        (stub_env\<lparr>extract_info := raising (ExtractorError ''Unsupported URL'')\<rparr>)
        ''https://example.com/video/1'' [''verbose'' \<mapsto> VBool False] True empty_world)
      = Inl (HTTPException 400
          ''Extractor error (e.g., unsupported URL, video unavailable): Unsupported URL'')
   \<and> fst (run_yt_dlp_operation
        (stub_env\<lparr>prepare_filename := (\<lambda>opts i. Inl (DownloadError ''no file name''))\<rparr>)
        ''https://example.com/video/1'' [''verbose'' \<mapsto> VBool False] True empty_world)
      = Inl (HTTPException 400 ''Download error: no file name'')"
proof -
  let ?o = "[''verbose'' \<mapsto> VBool False]"
  let ?e1 = "stub_env\<lparr>extract_info := raising (DownloadError ''network unreachable'')\<rparr>"
  let ?e2 = "stub_env\<lparr>extract_info := raising (ExtractorError ''Unsupported URL'')\<rparr>"
  let ?e3 = "stub_env\<lparr>prepare_filename := (\<lambda>opts i. Inl (DownloadError ''no file name''))\<rparr>"
  have s1: "stage_cookies ?e1 ?o empty_world = (Inr ?o, empty_world)"
    and s2: "stage_cookies ?e2 ?o empty_world = (Inr ?o, empty_world)"
    and s3: "stage_cookies ?e3 ?o empty_world = (Inr ?o, empty_world)"
    by (simp_all add: stage_cookies_def)
  have r1: "YoutubeDL ?e1 (strip_verbose ?o) = None
      \<and> fst (ydl_exit ?e1 (strip_verbose ?o)
            (snd (extract_info ?e1 (strip_verbose ?o) ''https://example.com/video/1'' False (files empty_world)))) = None
      \<and> fst (extract_info ?e1 (strip_verbose ?o) ''https://example.com/video/1'' False (files empty_world))
          = Inl (DownloadError ''network unreachable'')"
    by (simp add: stub_env_def raising_def)
  have r2: "YoutubeDL ?e2 (strip_verbose ?o) = None
      \<and> fst (ydl_exit ?e2 (strip_verbose ?o)
            (snd (extract_info ?e2 (strip_verbose ?o) ''https://example.com/video/1'' True (files empty_world)))) = None
      \<and> fst (extract_info ?e2 (strip_verbose ?o) ''https://example.com/video/1'' True (files empty_world))
          = Inl (ExtractorError ''Unsupported URL'')"
    by (simp add: stub_env_def raising_def)
  have r3: "YoutubeDL ?e3 (strip_verbose ?o) = None
      \<and> fst (ydl_exit ?e3 (strip_verbose ?o)
            (snd (extract_info ?e3 (strip_verbose ?o) ''https://example.com/video/1'' True (files empty_world)))) = None
      \<and> (\<exists>i. fst (extract_info ?e3 (strip_verbose ?o) ''https://example.com/video/1'' True (files empty_world)) = Inr i
             \<and> prepare_filename ?e3 (strip_verbose ?o) i = Inl (DownloadError ''no file name''))"
    by (simp add: stub_env_def)
  show ?thesis
    using extractor_errors_become_400 [OF s1, where u = "''https://example.com/video/1''" and d = False
        and x = "DownloadError ''network unreachable''" and m = "''network unreachable''"] r1
      extractor_errors_become_400 [OF s2, where u = "''https://example.com/video/1''" and d = True
        and x = "ExtractorError ''Unsupported URL''" and m = "''Unsupported URL''"] r2
      extractor_errors_become_400 [OF s3, where u = "''https://example.com/video/1''" and d = True
        and x = "DownloadError ''no file name''" and m = "''no file name''"] r3
    by simp
qed

text \<open>
  Claim C4, as the code has it. The staging step went through, and an exception that is
  neither a \<^verbatim>\<open>DownloadError\<close> nor an \<^verbatim>\<open>ExtractorError\<close>
  leaves the \<^verbatim>\<open>try\<close> block with message \<open>m\<close>: raised by the
  constructor, or on leaving the \<^verbatim>\<open>with\<close> block, or else by
  \<^verbatim>\<open>extract_info\<close> or, in download mode, by
  \<^verbatim>\<open>prepare_filename\<close> or by \<^verbatim>\<open>info.get\<close> on a missing
  metadata object. Then the gateway raises an HTTP exception with status 500 whose
  detail is a fixed prefix followed by \<open>m\<close>, and an error record with that message
  and the traceback is logged.
\<close>

theorem unexpected_error_becomes_500:
  assumes staged: "stage_cookies e opts w = (Inr o1, w1)"
  shows "((YoutubeDL e (strip_verbose o1) = Some (OtherError m)
       \<or> YoutubeDL e (strip_verbose o1) = None
         \<and> (fst (ydl_exit e (strip_verbose o1)
                   (snd (extract_info e (strip_verbose o1) u d (files w1)))) = Some (OtherError m)
            \<or> fst (ydl_exit e (strip_verbose o1)
                     (snd (extract_info e (strip_verbose o1) u d (files w1)))) = None
              \<and> (fst (extract_info e (strip_verbose o1) u d (files w1)) = Inl (OtherError m)
                 \<or> d \<and> (\<exists>i. fst (extract_info e (strip_verbose o1) u d (files w1)) = Inr i
                            \<and> (prepare_filename e (strip_verbose o1) i = Inl (OtherError m)
                               \<or> i = None \<and> m = NoneType_has_no_get
                                 \<and> (\<exists>fp. prepare_filename e (strip_verbose o1) i = Inr fp)))))) \<longrightarrow>
          fst (run_yt_dlp_operation e u opts d w)
            = Inl (HTTPException 500 (''An unexpected server error occurred: '' @ m))
          \<and> log_error (''An unexpected error occurred for '' @ u @ '': '' @ m) True
            \<in> set (log (snd (run_yt_dlp_operation e u opts d w))))"
proof
  let ?F = "strip_verbose o1"
  let ?w1 = "record_call (Construct ?F (files w1)) w1"
  assume raised: "YoutubeDL e ?F = Some (OtherError m)
       \<or> YoutubeDL e ?F = None
         \<and> (fst (ydl_exit e ?F (snd (extract_info e ?F u d (files w1)))) = Some (OtherError m)
            \<or> fst (ydl_exit e ?F (snd (extract_info e ?F u d (files w1)))) = None
              \<and> (fst (extract_info e ?F u d (files w1)) = Inl (OtherError m)
                 \<or> d \<and> (\<exists>i. fst (extract_info e ?F u d (files w1)) = Inr i
                            \<and> (prepare_filename e ?F i = Inl (OtherError m)
                               \<or> i = None \<and> m = NoneType_has_no_get
                                 \<and> (\<exists>fp. prepare_filename e ?F i = Inr fp)))))"
  have fs: "files ?w1 = files w1" by (simp add: record_call_def)
  from raised consider
      (library) "YoutubeDL e ?F = Some (OtherError m)
       \<or> YoutubeDL e ?F = None
         \<and> (fst (ydl_exit e ?F (snd (extract_info e ?F u d (files w1)))) = Some (OtherError m)
            \<or> fst (ydl_exit e ?F (snd (extract_info e ?F u d (files w1)))) = None
              \<and> (fst (extract_info e ?F u d (files w1)) = Inl (OtherError m)
                 \<or> d \<and> (\<exists>i. fst (extract_info e ?F u d (files w1)) = Inr i
                            \<and> prepare_filename e ?F i = Inl (OtherError m))))"
    | (attribute) fp where "YoutubeDL e ?F = None"
        "fst (ydl_exit e ?F (snd (extract_info e ?F u d (files w1)))) = None"
        "d" "fst (extract_info e ?F u d (files w1)) = Inr None"
        "prepare_filename e ?F None = Inr fp" "m = NoneType_has_no_get"
    by (elim disjE conjE exE) auto
  then have out: "fst (ydl_with e u ?F d w1) = Inl (OtherError m)"
  proof cases
    case library
    then show ?thesis by (rule library_raises)
  next
    case attribute
    then show ?thesis
      using with_body_info_None [of e ?F u ?w1 fp]
      by (simp add: ydl_with_exit_returns fs)
  qed
  obtain r w2 where yw: "ydl_with e u ?F d w1 = (r, w2)"
    by (cases "ydl_with e u ?F d w1")
  with out have r: "r = Inl (OtherError m)" by simp
  have "snd (run_yt_dlp_operation e u opts d w)
      = cleanup e ?F (logger (snd (handler u (OtherError m))) w2)"
    using staged yw r by (simp add: snd_run)
  moreover have "log_error (''An unexpected error occurred for '' @ u @ '': '' @ m) True
      \<in> set (log (logger (snd (handler u (OtherError m))) w2))"
    by (simp add: logger_def)
  ultimately have "log_error (''An unexpected error occurred for '' @ u @ '': '' @ m) True
           \<in> set (log (snd (run_yt_dlp_operation e u opts d w)))"
    using cleanup_log by fastforce
  moreover have "fst (run_yt_dlp_operation e u opts d w)
           = Inl (HTTPException 500 (''An unexpected server error occurred: '' @ m))"
    using staged out by (simp add: fst_run)
  ultimately show "fst (run_yt_dlp_operation e u opts d w)
            = Inl (HTTPException 500 (''An unexpected server error occurred: '' @ m))
          \<and> log_error (''An unexpected error occurred for '' @ u @ '': '' @ m) True
            \<in> set (log (snd (run_yt_dlp_operation e u opts d w)))"
    by simp
qed

theorem unexpected_error_becomes_500_witness:
  "fst (run_yt_dlp_operation (stub_env\<lparr>extract_info := raising (OtherError ''boom'')\<rparr>)
        ''https://example.com/video/1'' Map.empty True empty_world)
      = Inl (HTTPException 500 ''An unexpected server error occurred: boom'')
   \<and> log_error ''An unexpected error occurred for https://example.com/video/1: boom'' True
       \<in> set (log (snd (run_yt_dlp_operation
        (stub_env\<lparr>extract_info := raising (OtherError ''boom'')\<rparr>)
        ''https://example.com/video/1'' Map.empty True empty_world)))
   \<and> fst (run_yt_dlp_operation (stub_env\<lparr>ydl_exit := (\<lambda>opts fs. (Some (OtherError ''disk''), fs))\<rparr>)
        ''https://example.com/video/1'' Map.empty False empty_world)
      = Inl (HTTPException 500 ''An unexpected server error occurred: disk'')"
proof -
  let ?e1 = "stub_env\<lparr>extract_info := raising (OtherError ''boom'')\<rparr>"
  let ?e2 = "stub_env\<lparr>ydl_exit := (\<lambda>opts fs. (Some (OtherError ''disk''), fs))\<rparr>"
  have s1: "stage_cookies ?e1 Map.empty empty_world = (Inr Map.empty, empty_world)"
    and s2: "stage_cookies ?e2 Map.empty empty_world = (Inr Map.empty, empty_world)"
    by (simp_all add: stage_cookies_def)
  have r1: "YoutubeDL ?e1 (strip_verbose Map.empty) = None
      \<and> fst (ydl_exit ?e1 (strip_verbose Map.empty)
            (snd (extract_info ?e1 (strip_verbose Map.empty) ''https://example.com/video/1'' True (files empty_world)))) = None
      \<and> fst (extract_info ?e1 (strip_verbose Map.empty) ''https://example.com/video/1'' True (files empty_world))
          = Inl (OtherError ''boom'')"
    by (simp add: stub_env_def raising_def)
  have r2: "YoutubeDL ?e2 (strip_verbose Map.empty) = None
      \<and> fst (ydl_exit ?e2 (strip_verbose Map.empty)
            (snd (extract_info ?e2 (strip_verbose Map.empty) ''https://example.com/video/1'' False (files empty_world))))
          = Some (OtherError ''disk'')"
    by (simp add: stub_env_def)
  show ?thesis
    using unexpected_error_becomes_500 [OF s1, where u = "''https://example.com/video/1''" and d = True
        and m = "''boom''"] r1
      unexpected_error_becomes_500 [OF s2, where u = "''https://example.com/video/1''" and d = False
        and m = "''disk''"] r2
    by simp
qed

text \<open>
  Claim C4 as stated fails: the detail sent to the client is not generic, it carries
  the message of the exception.
\<close>

theorem unexpected_error_detail_not_generic:
  "fst (run_yt_dlp_operation (stub_env\<lparr>extract_info := raising (OtherError ''boom'')\<rparr>)
     ''https://example.com/video/1'' Map.empty False empty_world)
   = Inl (HTTPException 500 (''An unexpected server error occurred: '' @ ''boom''))"
  by (simp add: gateway_defs Let_def stub_env_def empty_world_def)

text \<open>
  Claim C7. When the options hold a non-empty credential string, every option mapping
  handed to the library in the call has no key \<^verbatim>\<open>cookies\<close> and has the key
  \<^verbatim>\<open>cookiefile\<close> bound to the path of the staged file; and when the file
  can be written, the first thing the call does with the library is to construct it
  with that mapping, the staged file being in place.
\<close>

theorem cookies_replaced_by_cookiefile:
  assumes "opts ''cookies'' = Some (VStr s)" and "s \<noteq> []"
  shows "(\<forall>o1 \<in> set (passed_opts (calls_of w (snd (run_yt_dlp_operation e u opts d w)))).
            o1 ''cookies'' = None
          \<and> o1 ''cookiefile'' = Some (VStr (cookie_file_path (getpid e))))
       \<and> (open_fault e (cookie_file_path (getpid e)) = None
          \<and> write_fault e (cookie_file_path (getpid e)) = None \<longrightarrow>
            take 1 (calls_of w (snd (run_yt_dlp_operation e u opts d w)))
              = [Construct
                   (strip_verbose ((opts(''cookies'' := None))
                      (''cookiefile'' \<mapsto> VStr (cookie_file_path (getpid e)))))
                   ((files w)(cookie_file_path (getpid e) \<mapsto> s))])"
proof -
  have tr: "truthy (opts ''cookies'')" using assms by simp
  have one: "\<forall>o1 \<in> set (passed_opts (calls_of w (snd (run_yt_dlp_operation e u opts d w)))).
            o1 ''cookies'' = None
          \<and> o1 ''cookiefile'' = Some (VStr (cookie_file_path (getpid e)))"
  proof (cases "stage_cookies e opts w")
    case (Pair r w1)
    show ?thesis
    proof (cases r)
      case (Inl h)
      with Pair show ?thesis by (simp add: passed_opts_run)
    next
      case (Inr o1)
      with Pair tr have "o1 = (opts(''cookies'' := None))
          (''cookiefile'' \<mapsto> VStr (cookie_file_path (getpid e)))"
        using stage_cookies_substitutes by simp
      with Pair Inr show ?thesis by (simp add: passed_opts_run strip_verbose_other)
    qed
  qed
  have two: "take 1 (calls_of w (snd (run_yt_dlp_operation e u opts d w)))
              = [Construct
                   (strip_verbose ((opts(''cookies'' := None))
                      (''cookiefile'' \<mapsto> VStr (cookie_file_path (getpid e)))))
                   ((files w)(cookie_file_path (getpid e) \<mapsto> s))]"
    if "open_fault e (cookie_file_path (getpid e)) = None"
      and "write_fault e (cookie_file_path (getpid e)) = None"
    using first_call_run [OF stage_cookies_written [where opts = opts and s = s and e = e and w = w],
        of u d] assms that
    by (simp add: logger_def)
  from one two show ?thesis by blast
qed

theorem cookies_replaced_by_cookiefile_witness:
  "[''cookies'' \<mapsto> VStr ''sessionid=abc123''] ''cookies'' = Some (VStr ''sessionid=abc123'')
   \<and> map (\<lambda>o1. (o1 ''cookies'', o1 ''cookiefile''))
         (passed_opts (calls_of empty_world (snd (run_yt_dlp_operation stub_env
            ''https://example.com/video/1'' [''cookies'' \<mapsto> VStr ''sessionid=abc123''] False empty_world))))
       = [(None, Some (VStr ''downloads/cookies_7.txt''))]"
  using cookies_replaced_by_cookiefile
    [where opts = "[''cookies'' \<mapsto> VStr ''sessionid=abc123'']" and s = "''sessionid=abc123''"
      and e = stub_env and w = empty_world and u = "''https://example.com/video/1''" and d = False]
  by (simp add: gateway_defs Let_def stub_env_def empty_world_def cookie_file_path_7)

text \<open>
  Claim C8. When the credential value is truthy and writing the cookie file fails, the
  gateway raises the HTTP exception 500 of the staging step and the library is not
  entered at all.
\<close>

theorem staging_failure_aborts_before_library:
  assumes "opts ''cookies'' = Some v" and "truthy (Some v)"
    and "fst (write_file e (cookie_file_path (getpid e)) v (files w)) = Inl x"
  shows "fst (run_yt_dlp_operation e u opts d w)
           = Inl (HTTPException 500 ''Failed to process cookies.'')
       \<and> calls_of w (snd (run_yt_dlp_operation e u opts d w)) = []
       \<and> lib_calls (snd (run_yt_dlp_operation e u opts d w)) = lib_calls w"
proof -
  have f: "fst (stage_cookies e opts w) = Inl (HTTPException 500 ''Failed to process cookies.'')"
    using assms by (rule stage_cookies_fails)
  then obtain w1 where st: "stage_cookies e opts w
      = (Inl (HTTPException 500 ''Failed to process cookies.''), w1)"
    by (cases "stage_cookies e opts w") simp
  have "lib_calls w1 = lib_calls w"
    using stage_cookies_lib_calls [of e opts w] st by simp
  then show ?thesis using st by (simp add: fst_run snd_run calls_of_def)
qed

theorem staging_failure_aborts_witness:
  "[''cookies'' \<mapsto> VStr ''sessionid=abc123''] ''cookies'' = Some (VStr ''sessionid=abc123'')
   \<and> truthy (Some (VStr ''sessionid=abc123''))
   \<and> fst (write_file (stub_env\<lparr>write_fault := (\<lambda>p. Some (OtherError ''No space left on device''))\<rparr>)
        (cookie_file_path (getpid (stub_env\<lparr>write_fault := (\<lambda>p. Some (OtherError ''No space left on device''))\<rparr>)))
        (VStr ''sessionid=abc123'') (files empty_world)) = Inl (OtherError ''No space left on device'')
   \<and> fst (run_yt_dlp_operation (stub_env\<lparr>write_fault := (\<lambda>p. Some (OtherError ''No space left on device''))\<rparr>)
        ''https://example.com/video/1'' [''cookies'' \<mapsto> VStr ''sessionid=abc123''] True empty_world)
       = Inl (HTTPException 500 ''Failed to process cookies.'')
   \<and> lib_calls (snd (run_yt_dlp_operation (stub_env\<lparr>write_fault := (\<lambda>p. Some (OtherError ''No space left on device''))\<rparr>)
        ''https://example.com/video/1'' [''cookies'' \<mapsto> VStr ''sessionid=abc123''] True empty_world)) = []"
proof -
  let ?e = "stub_env\<lparr>write_fault := (\<lambda>p. Some (OtherError ''No space left on device''))\<rparr>"
  have a: "[''cookies'' \<mapsto> VStr ''sessionid=abc123''] ''cookies'' = Some (VStr ''sessionid=abc123'')"
    by simp
  have b: "truthy (Some (VStr ''sessionid=abc123''))"
    by simp
  have c: "fst (write_file ?e (cookie_file_path (getpid ?e)) (VStr ''sessionid=abc123'')
      (files empty_world)) = Inl (OtherError ''No space left on device'')"
    by (simp add: write_file_def stub_env_def)
  show ?thesis
    using a b c staging_failure_aborts_before_library
      [where e = ?e and w = empty_world and u = "''https://example.com/video/1''" and d = True
        and opts = "[''cookies'' \<mapsto> VStr ''sessionid=abc123'']" and v = "VStr ''sessionid=abc123''"
        and x = "OtherError ''No space left on device''"]
    by (simp add: empty_world_def)
qed

text \<open>
  Claim C9. In every option mapping handed to the library in the call, the key
  \<^verbatim>\<open>verbose\<close> is absent when the supplied value is false or missing, and
  keeps its value when that is true; and a mapping is handed over whenever the staging
  step went through.
\<close>

theorem verbose_omitted_unless_true:
  "(\<forall>o1 \<in> set (passed_opts (calls_of w (snd (run_yt_dlp_operation e u opts d w)))).
       o1 ''verbose'' = (if truthy (opts ''verbose'') then opts ''verbose'' else None))
   \<and> (\<not> isl (fst (stage_cookies e opts w)) \<longrightarrow>
        length (passed_opts (calls_of w (snd (run_yt_dlp_operation e u opts d w)))) = 1)"
proof (cases "stage_cookies e opts w")
  case (Pair r w1)
  show ?thesis
  proof (cases r)
    case (Inl h)
    with Pair show ?thesis by (simp add: passed_opts_run)
  next
    case (Inr o1)
    with Pair have "o1 ''verbose'' = opts ''verbose''"
      using stage_cookies_verbose by simp
    with Pair Inr show ?thesis by (simp add: passed_opts_run strip_verbose_verbose)
  qed
qed

theorem verbose_omitted_unless_true_witness:
  "map (\<lambda>o1. o1 ''verbose'')
     (passed_opts (calls_of empty_world (snd (run_yt_dlp_operation stub_env
        ''https://example.com/video/1'' [''verbose'' \<mapsto> VBool False] False empty_world))))
     = [None]
   \<and> map (\<lambda>o1. o1 ''verbose'')
     (passed_opts (calls_of empty_world (snd (run_yt_dlp_operation stub_env
        ''https://example.com/video/1'' [''verbose'' \<mapsto> VBool True] False empty_world))))
     = [Some (VBool True)]"
  using verbose_omitted_unless_true
      [where w = empty_world and e = stub_env and u = "''https://example.com/video/1''"
        and opts = "[''verbose'' \<mapsto> VBool False]" and d = False]
    verbose_omitted_unless_true
      [where w = empty_world and e = stub_env and u = "''https://example.com/video/1''"
        and opts = "[''verbose'' \<mapsto> VBool True]" and d = False]
  by (simp add: gateway_defs Let_def stub_env_def empty_world_def)

text \<open>
  Claim C10. Whether and how \<^verbatim>\<open>os.remove\<close> fails in the cleanup has no
  influence on what the gateway call returns or raises: the outcome is the one the
  staging step and the library call determined.
\<close>

theorem removal_failure_is_suppressed:
  "fst (run_yt_dlp_operation (e\<lparr>remove_fault := rf\<rparr>) u opts d w)
     = fst (run_yt_dlp_operation e u opts d w)"
  by (simp add: fst_run stage_cookies_remove_fault ydl_with_remove_fault
      split: prod.split sum.split)

theorem removal_failure_is_suppressed_witness:
  "fst (run_yt_dlp_operation (stub_env\<lparr>remove_fault := (\<lambda>p. Some (OtherError ''Permission denied''))\<rparr>)
       ''https://example.com/video/1'' [''cookies'' \<mapsto> VStr ''sessionid=abc123''] True empty_world)
     = fst (run_yt_dlp_operation stub_env ''https://example.com/video/1'' [''cookies'' \<mapsto> VStr ''sessionid=abc123''] True empty_world)
   \<and> fst (run_yt_dlp_operation stub_env ''https://example.com/video/1'' [''cookies'' \<mapsto> VStr ''sessionid=abc123''] True empty_world)
     = Inr (Downloaded ''Video downloaded successfully!'' (Some (VStr ''Demo''))
          ''downloads/Demo.mp4'' (Some (VStr ''generic'')))"
  using removal_failure_is_suppressed
    [where e = stub_env and rf = "(\<lambda>p. Some (OtherError ''Permission denied''))"
      and u = "''https://example.com/video/1''" and opts = "[''cookies'' \<mapsto> VStr ''sessionid=abc123'']"
      and d = True and w = empty_world]
  by (simp add: gateway_defs Let_def stub_env_def empty_world_def cookie_file_path_7)

section \<open>The claim about the staged path\<close>

text \<open>
  Claim C2, as the code has it. The path of the staged file is made of the process id
  alone. Two gateway calls that both stage a credential file use the same path exactly
  when they run in the same process: the paths are distinct across processes, not
  across the requests of one process.
\<close>

theorem staged_paths_distinct_across_processes:
  assumes "truthy (opts1 ''cookies'')" and "\<not> isl (fst (stage_cookies e1 opts1 w1))"
    and "truthy (opts2 ''cookies'')" and "\<not> isl (fst (stage_cookies e2 opts2 w2))"
  shows "staged_path (fst (stage_cookies e1 opts1 w1))
           = Some (VStr (cookie_file_path (getpid e1)))
       \<and> staged_path (fst (stage_cookies e2 opts2 w2))
           = Some (VStr (cookie_file_path (getpid e2)))
       \<and> (staged_path (fst (stage_cookies e1 opts1 w1))
            = staged_path (fst (stage_cookies e2 opts2 w2))
          \<longleftrightarrow> getpid e1 = getpid e2)"
proof -
  obtain a w1' where st1: "stage_cookies e1 opts1 w1 = (Inr a, w1')"
    using assms(2)
    by (cases "stage_cookies e1 opts1 w1"; cases "fst (stage_cookies e1 opts1 w1)") auto
  obtain b w2' where st2: "stage_cookies e2 opts2 w2 = (Inr b, w2')"
    using assms(4)
    by (cases "stage_cookies e2 opts2 w2"; cases "fst (stage_cookies e2 opts2 w2)") auto
  have "a ''cookiefile'' = Some (VStr (cookie_file_path (getpid e1)))"
    using stage_cookies_substitutes [OF st1 assms(1)] by simp
  moreover have "b ''cookiefile'' = Some (VStr (cookie_file_path (getpid e2)))"
    using stage_cookies_substitutes [OF st2 assms(3)] by simp
  ultimately show ?thesis
    using st1 st2 by (simp add: staged_path_def cookie_file_path_inj)
qed

theorem staged_paths_distinct_across_processes_witness:
  "truthy ([''cookies'' \<mapsto> VStr ''sessionid=abc123''] ''cookies'')
   \<and> \<not> isl (fst (stage_cookies stub_env [''cookies'' \<mapsto> VStr ''sessionid=abc123''] empty_world))
   \<and> truthy ([''cookies'' \<mapsto> VStr ''sessionid=xyz789''] ''cookies'')
   \<and> \<not> isl (fst (stage_cookies (stub_env\<lparr>getpid := 8\<rparr>)
          [''cookies'' \<mapsto> VStr ''sessionid=xyz789''] empty_world))
   \<and> staged_path (fst (stage_cookies stub_env [''cookies'' \<mapsto> VStr ''sessionid=abc123''] empty_world))
       = Some (VStr ''downloads/cookies_7.txt'')
   \<and> staged_path (fst (stage_cookies (stub_env\<lparr>getpid := 8\<rparr>)
          [''cookies'' \<mapsto> VStr ''sessionid=xyz789''] empty_world))
       = Some (VStr ''downloads/cookies_8.txt'')
   \<and> staged_path (fst (stage_cookies stub_env [''cookies'' \<mapsto> VStr ''sessionid=abc123''] empty_world))
       \<noteq> staged_path (fst (stage_cookies (stub_env\<lparr>getpid := 8\<rparr>)
          [''cookies'' \<mapsto> VStr ''sessionid=xyz789''] empty_world))"
proof -
  let ?e2 = "stub_env\<lparr>getpid := 8\<rparr>"
  have a: "truthy ([''cookies'' \<mapsto> VStr ''sessionid=abc123''] ''cookies'')"
    and c: "truthy ([''cookies'' \<mapsto> VStr ''sessionid=xyz789''] ''cookies'')"
    by simp_all
  have b: "\<not> isl (fst (stage_cookies stub_env [''cookies'' \<mapsto> VStr ''sessionid=abc123''] empty_world))"
    by (simp add: stage_cookies_def write_file_def stub_env_def)
  have d: "\<not> isl (fst (stage_cookies ?e2 [''cookies'' \<mapsto> VStr ''sessionid=xyz789''] empty_world))"
    by (simp add: stage_cookies_def write_file_def stub_env_def)
  have pids: "getpid stub_env = 7" "getpid ?e2 = 8"
    by (simp_all add: stub_env_def)
  show ?thesis
    using a b c d staged_paths_distinct_across_processes [OF a b c d]
    by (simp add: pids cookie_file_path_7 cookie_file_path_8)
qed

text \<open>
  Claim C2 as stated fails: two requests in flight in one process, with distinct
  credential strings, are given the same staged path, and the second overwrites the
  file of the first.
\<close>

theorem concurrent_requests_share_staged_path:
  "staged_path (fst (stage_cookies stub_env [''cookies'' \<mapsto> VStr ''sessionid=abc123''] empty_world))
     = Some (VStr ''downloads/cookies_7.txt'')
   \<and> staged_path (fst (stage_cookies stub_env [''cookies'' \<mapsto> VStr ''sessionid=xyz789'']
        (snd (stage_cookies stub_env [''cookies'' \<mapsto> VStr ''sessionid=abc123''] empty_world))))
     = Some (VStr ''downloads/cookies_7.txt'')
   \<and> files (snd (stage_cookies stub_env [''cookies'' \<mapsto> VStr ''sessionid=xyz789'']
        (snd (stage_cookies stub_env [''cookies'' \<mapsto> VStr ''sessionid=abc123''] empty_world))))
       ''downloads/cookies_7.txt'' = Some ''sessionid=xyz789''"
  by (simp add: stage_cookies_def write_file_def staged_path_def logger_def stub_env_def
      empty_world_def cookie_file_path_7)

section \<open>The claims about the request models\<close>

text \<open>
  Claim C5, as the code has it. A request body is rejected exactly when it is not an
  object, or its \<^verbatim>\<open>url\<close> is missing or refused by the string validator,
  or its \<^verbatim>\<open>options\<close> are present and are not an object or hold a field
  that the validator of the field's type refuses. No field has a range constraint: a
  negative retry count is not a reason to reject. A rejected body is answered without
  the handler being called, the world unchanged.
\<close>

theorem rejected_iff_url_missing_or_field_refused:
  "(isl (validate_VideoRequest V body) =
     (case body of
        JObject obj \<Rightarrow>
          map_of obj ''url'' = None \<or> refused (v_str V) ''url'' obj
          \<or> (case map_of obj ''options'' of
                None \<Rightarrow> False
              | Some j \<Rightarrow>
                  (case j of
                     JObject obj' \<Rightarrow>
                       refused (v_str V) ''format'' obj' \<or> refused (v_str V) ''outtmpl'' obj'
                       \<or> refused (v_bool V) ''noplaylist'' obj'
                       \<or> refused (v_bool V) ''nocheckcertificate'' obj'
                       \<or> refused (v_int V) ''retries'' obj'
                       \<or> refused (v_int V) ''extractor_retries'' obj'
                       \<or> refused (v_bool V) ''verbose'' obj'
                       \<or> refused (or_none (v_str V)) ''cookies'' obj'
                   | _ \<Rightarrow> True))
      | _ \<Rightarrow> True))
   \<and> (\<forall>err. validate_VideoRequest V body = Inl err \<longrightarrow>
          post handler_fn e V body w = (Rejected err, w))"
proof -
  have "\<forall>err. validate_VideoRequest V body = Inl err \<longrightarrow>
          post handler_fn e V body w = (Rejected err, w)"
    by (simp add: post_def)
  moreover have "isl (validate_VideoRequest V body) =
     (case body of
        JObject obj \<Rightarrow>
          map_of obj ''url'' = None \<or> refused (v_str V) ''url'' obj
          \<or> (case map_of obj ''options'' of
                None \<Rightarrow> False
              | Some j \<Rightarrow>
                  (case j of
                     JObject obj' \<Rightarrow>
                       refused (v_str V) ''format'' obj' \<or> refused (v_str V) ''outtmpl'' obj'
                       \<or> refused (v_bool V) ''noplaylist'' obj'
                       \<or> refused (v_bool V) ''nocheckcertificate'' obj'
                       \<or> refused (v_int V) ''retries'' obj'
                       \<or> refused (v_int V) ''extractor_retries'' obj'
                       \<or> refused (v_bool V) ''verbose'' obj'
                       \<or> refused (or_none (v_str V)) ''cookies'' obj'
                   | _ \<Rightarrow> True))
      | _ \<Rightarrow> True)"
  proof (cases body)
  case (JObject obj)
  show ?thesis
  proof (cases "map_of obj ''options''")
    case None
    with JObject show ?thesis
      by (simp add: isl_validate_VideoRequest isl_url_field options_field_def)
  next
    case (Some j)
    with JObject show ?thesis
      by (cases j)
        (simp_all add: isl_validate_VideoRequest isl_url_field options_field_def
          isl_validate_YtDlpOptions YtDlpOptions_errors_Nil validate_YtDlpOptions_def)
  qed
qed (simp_all add: validate_VideoRequest_def)
  ultimately show ?thesis by blast
qed

theorem rejected_iff_witness:
  "\<not> isl (validate_VideoRequest json_types
       (JObject [(''url'', JStr ''https://example.com/video/1''),
               (''options'', JObject [(''retries'', JInt (- 1))])]))
   \<and> isl (validate_VideoRequest json_types (JObject [(''options'', JObject [])]))
   \<and> isl (validate_VideoRequest json_types
       (JObject [(''url'', JStr ''https://example.com/video/1''),
                 (''options'', JObject [(''retries'', JStr ''many'')])]))
   \<and> validate_VideoRequest json_types (JObject []) = Inl (ValidationError [''url''])
   \<and> post get_video_info stub_env json_types (JObject []) empty_world
       = (Rejected (ValidationError [''url'']), empty_world)"
proof -
  have r: "validate_VideoRequest json_types (JObject []) = Inl (ValidationError [''url''])"
    by (simp add: validation_defs)
  show ?thesis
    using r
      rejected_iff_url_missing_or_field_refused
        [where V = json_types and body = "(JObject [(''url'', JStr ''https://example.com/video/1''),
               (''options'', JObject [(''retries'', JInt (- 1))])])"]
      rejected_iff_url_missing_or_field_refused
        [where V = json_types and body = "JObject [(''options'', JObject [])]"]
      rejected_iff_url_missing_or_field_refused
        [where V = json_types and body = "JObject [(''url'', JStr ''https://example.com/video/1''),
                 (''options'', JObject [(''retries'', JStr ''many'')])]"]
      rejected_iff_url_missing_or_field_refused
        [where V = json_types and body = "JObject []" and handler_fn = get_video_info
          and e = stub_env and w = empty_world]
    by (simp add: refused_def json_types_def or_none_def)
qed

text \<open>
  Claim C5 as stated fails: a body with \<^verbatim>\<open>retries\<close> equal to \<open>-1\<close>
  is accepted, and the model built from it has that retry count.
\<close>

theorem negative_retries_accepted:
  "validate_VideoRequest json_types
     (JObject [(''url'', JStr ''https://example.com/video/1''),
               (''options'', JObject [(''retries'', JInt (- 1))])])
   = Inr \<lparr>url = ''https://example.com/video/1'',
          options = default_YtDlpOptions\<lparr>retries := - 1\<rparr>\<rparr>"
  by (simp add: validate_VideoRequest_def url_field_def options_field_def
      validate_YtDlpOptions_def YtDlpOptions_errors_def YtDlpOptions_fields_def get_field_def
      or_none_def json_types_def default_YtDlpOptions_def)

text \<open>
  Claim C6. A request body with a valid \<^verbatim>\<open>url\<close> and no
  \<^verbatim>\<open>options\<close> gives the default options: the default format selector,
  the output template under the downloads directory, single video only, no certificate
  check, five retries of each kind, not verbose, no credential string.
\<close>

theorem omitted_options_give_defaults:
  assumes "map_of obj ''url'' = Some j" and "v_str V j = Some s"
    and "map_of obj ''options'' = None"
  shows "validate_VideoRequest V (JObject obj) =
           Inr \<lparr>url = s,
                options =
                  \<lparr>format = ''bestvideo[ext=mp4]+bestaudio[ext=m4a]/best[ext=mp4]/best'',
                   outtmpl = ''downloads/%(title)s.%(ext)s'',
                   noplaylist = True,
                   nocheckcertificate = True,
                   retries = 5,
                   extractor_retries = 5,
                   verbose = False,
                   cookies = None\<rparr>\<rparr>"
  using assms
  by (simp add: validate_VideoRequest_def url_field_def options_field_def
      default_YtDlpOptions_def path_join_def DOWNLOADS_DIR_def)

theorem omitted_options_give_defaults_witness:
  "map_of [(''url'', JStr ''https://example.com/video/1'')] ''url'' = Some (JStr ''https://example.com/video/1'')
   \<and> v_str json_types (JStr ''https://example.com/video/1'') = Some ''https://example.com/video/1''
   \<and> map_of [(''url'', JStr ''https://example.com/video/1'')] ''options'' = None
   \<and> validate_VideoRequest json_types (JObject [(''url'', JStr ''https://example.com/video/1'')]) =
       Inr \<lparr>url = ''https://example.com/video/1'',
            options =
              \<lparr>format = ''bestvideo[ext=mp4]+bestaudio[ext=m4a]/best[ext=mp4]/best'',
               outtmpl = ''downloads/%(title)s.%(ext)s'',
               noplaylist = True,
               nocheckcertificate = True,
               retries = 5,
               extractor_retries = 5,
               verbose = False,
               cookies = None\<rparr>\<rparr>"
proof -
  have a: "map_of [(''url'', JStr ''https://example.com/video/1'')] ''url'' = Some (JStr ''https://example.com/video/1'')"
    and c: "map_of [(''url'', JStr ''https://example.com/video/1'')] ''options'' = None"
    by simp_all
  have b: "v_str json_types (JStr ''https://example.com/video/1'') = Some ''https://example.com/video/1''"
    by (simp add: json_types_def)
  show ?thesis
    using a b c omitted_options_give_defaults [OF a b c] by simp
qed

end
